theory Spec2Isabelle
  imports Complex_Main
begin

section \<open>Configuration (config.py)\<close>

text \<open>
  Python floats are modelled as \<^typ>\<open>real\<close> and Python's unbounded integers as
  \<^typ>\<open>int\<close>. The arithmetic of the model is exact: the rounding of IEEE doubles,
  infinities and NaN are not part of it. The constants the controller multiplies and
  compares are those of \<open>RateLimitConfig\<close>.
\<close>

record RateLimitConfig =
  min_delay :: real
  max_delay :: real
  batch_size :: int
  batch_delay :: real
  error_delay :: real
  rate_limit_delay :: real
  success_reduction :: real
  failure_increase :: real
  max_dynamic_delay :: real

text \<open>The global \<open>config.rate_limit\<close>: the dataclass defaults, never reassigned.\<close>

definition rate_limit :: RateLimitConfig where
  "rate_limit =
     \<lparr>min_delay = 3, max_delay = 8, batch_size = 10, batch_delay = 300,
      error_delay = 60, rate_limit_delay = 900,
      success_reduction = 9 / 10, failure_increase = 3 / 2,
      max_dynamic_delay = 30\<rparr>"

section \<open>Data model (analyzer.py)\<close>

record RateLimitEvent =
  timestamp :: real
  event_type :: string
  delay_used :: real
  response_time :: real
  error_message :: string

record SmartAnalyzer =
  events :: "RateLimitEvent list"
  current_delay :: real
  consecutive_successes :: int
  consecutive_failures :: int
  last_request_time :: real
  rate_limit_detected :: bool

subsection \<open>The snapshot file\<close>

text \<open>
  One element of \<open>recent_events\<close> in the snapshot: a JSON object. Each of the five
  dataclass fields may be present or absent; \<open>d_unexpected\<close> lists the keys of the
  object that are not fields of \<open>RateLimitEvent\<close>.
\<close>

record event_dict =
  d_timestamp :: "real option"
  d_event_type :: "string option"
  d_delay_used :: "real option"
  d_response_time :: "real option"
  d_error_message :: "string option"
  d_unexpected :: "string list"

text \<open>
  The JSON object of the snapshot; every key is read with \<open>data.get\<close>, so each may be
  absent. A value that is present has the JSON type \<open>_save_analysis\<close> writes for its key.
\<close>

record analysis_data =
  j_current_delay :: "real option"
  j_consecutive_successes :: "int option"
  j_consecutive_failures :: "int option"
  j_rate_limit_detected :: "bool option"
  j_last_updated :: "real option"
  j_recent_events :: "event_dict list option"

text \<open>
  What \<open>sessions/rate_analysis.json\<close> holds: no file, a file that \<open>open\<close> or
  \<open>json.load\<close> rejects, or a parsed JSON object.
\<close>

datatype file_content = Missing | Unreadable | Snapshot analysis_data

datatype notice = LoadWarning | SaveWarning

text \<open>
  The environment of the controller: \<open>clock\<close> is what \<open>time.time()\<close> returns,
  \<open>analysis_file\<close> the snapshot file, \<open>writable\<close> whether opening it for writing
  succeeds, \<open>sleep_lag\<close> how much longer than asked \<open>time.sleep\<close> suspends
  (a negative value is read as 0), \<open>printed\<close> the warnings printed so far.
\<close>

record world =
  clock :: real
  analysis_file :: file_content
  writable :: bool
  sleep_lag :: real
  printed :: "notice list"

datatype py_error = TypeError

section \<open>Persistence\<close>

text \<open>\<open>asdict(e)\<close>: every field present, no other key.\<close>

definition asdict :: "RateLimitEvent \<Rightarrow> event_dict" where
  "asdict e =
     \<lparr>d_timestamp = Some (timestamp e), d_event_type = Some (event_type e),
      d_delay_used = Some (delay_used e), d_response_time = Some (response_time e),
      d_error_message = Some (error_message e), d_unexpected = []\<rparr>"

text \<open>\<open>self.events[-100:]\<close>\<close>

definition last_100 :: "'a list \<Rightarrow> 'a list" where
  "last_100 xs = drop (length xs - 100) xs"

text \<open>
  \<open>_save_analysis\<close>: when the file cannot be opened the exception is caught, a warning
  is printed and the file stays as it was.
\<close>

definition save_analysis :: "SmartAnalyzer \<times> world \<Rightarrow> SmartAnalyzer \<times> world" where
  "save_analysis = (\<lambda>(s, w).
     let analysis_data =
           \<lparr>j_current_delay = Some (current_delay s),
            j_consecutive_successes = Some (consecutive_successes s),
            j_consecutive_failures = Some (consecutive_failures s),
            j_rate_limit_detected = Some (rate_limit_detected s),
            j_last_updated = Some (clock w),
            j_recent_events = Some (map asdict (last_100 (events s)))\<rparr>
     in if writable w then (s, w\<lparr>analysis_file := Snapshot analysis_data\<rparr>)
        else (s, w\<lparr>printed := printed w @ [SaveWarning]\<rparr>))"

section \<open>The delay controller\<close>

definition adjust_delay :: "SmartAnalyzer \<Rightarrow> SmartAnalyzer" where
  "adjust_delay s =
     (let s1 =
        (if consecutive_successes s \<ge> 5 then
           (let s' = s\<lparr>current_delay := current_delay s * success_reduction rate_limit\<rparr>
            in s'\<lparr>current_delay := max (current_delay s') (min_delay rate_limit)\<rparr>)
         else if consecutive_failures s \<ge> 2 then
           (let s' = s\<lparr>current_delay := current_delay s * failure_increase rate_limit\<rparr>
            in s'\<lparr>current_delay := min (current_delay s') (max_dynamic_delay rate_limit)\<rparr>)
         else s)
      in if rate_limit_detected s1 \<and> consecutive_failures s1 \<ge> 1 then
           s1\<lparr>current_delay := min (max_dynamic_delay rate_limit) (current_delay s1 * 2)\<rparr>
         else s1)"

definition record_event ::
  "string \<Rightarrow> real \<Rightarrow> real \<Rightarrow> string \<Rightarrow> SmartAnalyzer \<times> world \<Rightarrow> SmartAnalyzer \<times> world" where
  "record_event etype dused rtime emsg = (\<lambda>(s, w).
     let event = \<lparr>timestamp = clock w, event_type = etype, delay_used = dused,
                  response_time = rtime, error_message = emsg\<rparr>;
         s1 = s\<lparr>events := events s @ [event]\<rparr>;
         s2 = (if etype = ''success'' then
                 s1\<lparr>consecutive_successes := consecutive_successes s1 + 1,
                    consecutive_failures := 0,
                    rate_limit_detected := False\<rparr>
               else if etype \<in> set [''rate_limit'', ''error'', ''timeout''] then
                 (let s' = s1\<lparr>consecutive_failures := consecutive_failures s1 + 1,
                               consecutive_successes := 0\<rparr>
                  in if etype = ''rate_limit'' then s'\<lparr>rate_limit_detected := True\<rparr> else s')
               else s1);
         s3 = adjust_delay s2
     in if length (events s3) mod 10 = 0 then save_analysis (s3, w) else (s3, w))"

text \<open>The state \<open>__init__\<close> sets up before it looks for a snapshot.\<close>

definition fresh :: SmartAnalyzer where
  "fresh =
     \<lparr>events = [], current_delay = min_delay rate_limit,
      consecutive_successes = 0, consecutive_failures = 0,
      last_request_time = 0, rate_limit_detected = False\<rparr>"

text \<open>
  One call of \<open>record_event\<close> as a caller makes it: its four arguments, and the
  clock and the writability of the snapshot file at the time of the call.
\<close>

record call =
  at_time :: real
  can_write :: bool
  kind :: string
  used :: real
  took :: real
  msg :: string

fun record_events :: "call list \<Rightarrow> SmartAnalyzer \<times> world \<Rightarrow> SmartAnalyzer \<times> world" where
  "record_events [] sw = sw"
| "record_events (c # cs) sw =
     record_events cs
       (record_event (kind c) (used c) (took c) (msg c)
          (fst sw, (snd sw)\<lparr>clock := at_time c, writable := can_write c\<rparr>))"

section \<open>Loading the snapshot\<close>

text \<open>
  \<open>RateLimitEvent(**event)\<close>: the generated \<open>__init__\<close> raises \<open>TypeError\<close> on a
  keyword that is not a field and on a missing \<open>timestamp\<close>, \<open>event_type\<close> or
  \<open>delay_used\<close>; \<open>response_time\<close> and \<open>error_message\<close> have defaults.
\<close>

definition RateLimitEvent_init :: "event_dict \<Rightarrow> py_error + RateLimitEvent" where
  "RateLimitEvent_init d =
     (if d_unexpected d \<noteq> [] then Inl TypeError
      else case (d_timestamp d, d_event_type d, d_delay_used d) of
             (Some t, Some k, Some u) \<Rightarrow>
               Inr \<lparr>timestamp = t, event_type = k, delay_used = u,
                    response_time = (case d_response_time d of None \<Rightarrow> 0 | Some r \<Rightarrow> r),
                    error_message = (case d_error_message d of None \<Rightarrow> [] | Some m \<Rightarrow> m)\<rparr>
           | _ \<Rightarrow> Inl TypeError)"

text \<open>\<open>[RateLimitEvent(**event) for event in recent_events]\<close>: the first failure raises.\<close>

fun events_of_dicts :: "event_dict list \<Rightarrow> py_error + RateLimitEvent list" where
  "events_of_dicts [] = Inr []"
| "events_of_dicts (d # ds) =
     (case RateLimitEvent_init d of
        Inl e \<Rightarrow> Inl e
      | Inr ev \<Rightarrow> (case events_of_dicts ds of Inl e \<Rightarrow> Inl e | Inr evs \<Rightarrow> Inr (ev # evs)))"

text \<open>
  \<open>_load_analysis\<close>. The four scalar fields are assigned before the events are built, so
  an exception raised by the list comprehension is caught after those assignments.
\<close>

definition load_analysis :: "SmartAnalyzer \<times> world \<Rightarrow> SmartAnalyzer \<times> world" where
  "load_analysis = (\<lambda>(s, w).
     case analysis_file w of
       Missing \<Rightarrow> (s, w)
     | Unreadable \<Rightarrow> (s, w\<lparr>printed := printed w @ [LoadWarning]\<rparr>)
     | Snapshot data \<Rightarrow>
         if clock w - (case j_last_updated data of None \<Rightarrow> 0 | Some t \<Rightarrow> t) < 86400 then
           (let s1 = s\<lparr>current_delay :=
                        (case j_current_delay data of None \<Rightarrow> min_delay rate_limit | Some v \<Rightarrow> v)\<rparr>;
                s2 = s1\<lparr>consecutive_successes :=
                        (case j_consecutive_successes data of None \<Rightarrow> 0 | Some v \<Rightarrow> v)\<rparr>;
                s3 = s2\<lparr>consecutive_failures :=
                        (case j_consecutive_failures data of None \<Rightarrow> 0 | Some v \<Rightarrow> v)\<rparr>;
                s4 = s3\<lparr>rate_limit_detected :=
                        (case j_rate_limit_detected data of None \<Rightarrow> False | Some v \<Rightarrow> v)\<rparr>;
                recent_events = (case j_recent_events data of None \<Rightarrow> [] | Some l \<Rightarrow> l)
            in case events_of_dicts recent_events of
                 Inl e \<Rightarrow> (s4, w\<lparr>printed := printed w @ [LoadWarning]\<rparr>)
               | Inr evs \<Rightarrow> (s4\<lparr>events := evs\<rparr>, w))
         else (s, w))"

text \<open>\<open>SmartAnalyzer.__init__\<close>\<close>

definition SmartAnalyzer_init :: "world \<Rightarrow> SmartAnalyzer \<times> world" where
  "SmartAnalyzer_init w = load_analysis (fresh, w)"

section \<open>Recommendations and reporting\<close>

text \<open>\<open>get_next_delay\<close>; \<open>jitter\<close> is the value drawn by \<open>random.uniform(0.8, 1.2)\<close>.\<close>

definition get_next_delay :: "real \<Rightarrow> SmartAnalyzer \<Rightarrow> real \<times> SmartAnalyzer" where
  "get_next_delay jitter s =
     (let base_delay = current_delay s;
          calculated_delay = base_delay * jitter;
          calculated_delay =
            (if rate_limit_detected s then calculated_delay * 2 else calculated_delay)
      in (min calculated_delay (max_dynamic_delay rate_limit), s))"

datatype py_value = PyStr string | PyFloat real | PyInt int | PyBool bool

text \<open>\<open>get_status_report\<close>; the report is the dictionary, in the order of its keys.\<close>

definition get_status_report ::
  "SmartAnalyzer \<Rightarrow> world \<Rightarrow> (string \<times> py_value) list \<times> SmartAnalyzer" where
  "get_status_report s w =
     (let recent_events = filter (\<lambda>e. timestamp e > clock w - 3600) (events s)
      in if recent_events = [] then
           ([(''status'', PyStr ''no_data''),
             (''message'', PyStr ''No recent activity to analyze''),
             (''current_delay'', PyFloat (current_delay s)),
             (''rate_limit_detected'', PyBool False)], s)
         else
           (let success_rate =
                  real (length (filter (\<lambda>e. event_type e = ''success'') recent_events))
                    / real (length recent_events);
                avg_delay = sum_list (map delay_used recent_events) / real (length recent_events);
                (status, message) =
                  (if rate_limit_detected s then
                     (''rate_limited'', ''Rate limiting detected - using conservative delays'')
                   else if success_rate > 9 / 10 then
                     (''optimal'', ''Operating at optimal speed'')
                   else if success_rate > 7 / 10 then
                     (''cautious'', ''Some issues detected - using moderate delays'')
                   else
                     (''problematic'', ''High failure rate - using maximum delays''))
            in ([(''status'', PyStr status),
                 (''message'', PyStr message),
                 (''success_rate'', PyFloat success_rate),
                 (''current_delay'', PyFloat (current_delay s)),
                 (''avg_delay'', PyFloat avg_delay),
                 (''consecutive_successes'', PyInt (consecutive_successes s)),
                 (''consecutive_failures'', PyInt (consecutive_failures s)),
                 (''rate_limit_detected'', PyBool (rate_limit_detected s)),
                 (''events_last_hour'', PyInt (int (length recent_events)))], s)))"

section \<open>Waiting\<close>

text \<open>\<open>time.sleep(secs)\<close> suspends for at least \<open>secs\<close> seconds.\<close>

definition sleep :: "real \<Rightarrow> world \<Rightarrow> world" where
  "sleep secs w = w\<lparr>clock := clock w + secs + max 0 (sleep_lag w)\<rparr>"

text \<open>The progress loop of \<open>wait_with_progress\<close>, for delays above 5 seconds.\<close>

function progress_loop :: "real \<Rightarrow> real \<Rightarrow> world \<Rightarrow> world" where
  "progress_loop start_time delay w =
     (if clock w - start_time < delay then
        (let elapsed = clock w - start_time;
             remaining = delay - elapsed;
             w1 = sleep 1 w
         in if remaining \<le> 0 then w1 else progress_loop start_time delay w1)
      else w)"
  by pat_completeness auto
termination
proof (relation "measure (\<lambda>(start_time, delay, w). nat \<lceil>delay - (clock w - start_time)\<rceil>)")
  show "wf (measure (\<lambda>(start_time, delay, w). nat \<lceil>delay - (clock w - start_time)\<rceil>))"
    by simp
next
  fix start_time delay :: real and w :: world and x xa xb
  assume a: "clock w - start_time < delay" and xb: "xb = sleep 1 w"
  have "\<lceil>delay - (clock xb - start_time)\<rceil> \<le> \<lceil>delay - (clock w - start_time) - 1\<rceil>"
    unfolding xb sleep_def by (rule ceiling_mono) simp
  also have "\<dots> = \<lceil>delay - (clock w - start_time)\<rceil> - 1"
    by simp
  finally have "\<lceil>delay - (clock xb - start_time)\<rceil> < \<lceil>delay - (clock w - start_time)\<rceil>"
    by simp
  moreover have "0 < \<lceil>delay - (clock w - start_time)\<rceil>"
    using a by simp
  ultimately show "((start_time, delay, xb), start_time, delay, w)
      \<in> measure (\<lambda>(start_time, delay, w). nat \<lceil>delay - (clock w - start_time)\<rceil>)"
    by simp
qed

declare progress_loop.simps [simp del]

text \<open>\<open>wait_with_progress\<close>; \<open>reason\<close> is only printed and is left out.\<close>

definition wait_with_progress :: "real \<Rightarrow> SmartAnalyzer \<times> world \<Rightarrow> SmartAnalyzer \<times> world" where
  "wait_with_progress requested = (\<lambda>(s, w).
     let delay =
           (if last_request_time s > 0 then
              (let time_since_last = clock w - last_request_time s;
                   min_spacing = min_delay rate_limit
               in if time_since_last < min_spacing then
                    (let additional_delay = min_spacing - time_since_last
                     in max requested additional_delay)
                  else requested)
            else requested)
     in if delay \<le> 0 then (s\<lparr>last_request_time := clock w\<rparr>, w)
        else
          (let w1 = (if delay > 5 then progress_loop (clock w) delay w else sleep delay w)
           in (s\<lparr>last_request_time := clock w1\<rparr>, w1)))"

section \<open>Properties\<close>

definition world0 :: world where
  "world0 = \<lparr>clock = 1000, analysis_file = Missing, writable = True, sleep_lag = 0, printed = []\<rparr>"

subsection \<open>What \<open>_adjust_delay\<close> and \<open>record_event\<close> change\<close>

lemma adjust_delay_bounds:
  assumes "min_delay rate_limit \<le> current_delay s"
    and "current_delay s \<le> max_dynamic_delay rate_limit"
  shows "min_delay rate_limit \<le> current_delay (adjust_delay s)
       \<and> current_delay (adjust_delay s) \<le> max_dynamic_delay rate_limit"
  using assms by (auto simp add: adjust_delay_def rate_limit_def Let_def min_def max_def)

lemma adjust_delay_other_fields [simp]:
  "consecutive_successes (adjust_delay s) = consecutive_successes s"
  "consecutive_failures (adjust_delay s) = consecutive_failures s"
  "rate_limit_detected (adjust_delay s) = rate_limit_detected s"
  "events (adjust_delay s) = events s"
  "last_request_time (adjust_delay s) = last_request_time s"
  by (simp_all add: adjust_delay_def Let_def)

lemma fst_save_analysis [simp]: "fst (save_analysis (s, w)) = s"
  by (simp add: save_analysis_def Let_def)

text \<open>The controller state after \<open>record_event\<close>, whether or not the snapshot is written.\<close>

lemma fst_record_event:
  "fst (record_event k d r m (s, w)) =
     adjust_delay
       (let s1 = s\<lparr>events := events s @
                    [\<lparr>timestamp = clock w, event_type = k, delay_used = d,
                      response_time = r, error_message = m\<rparr>]\<rparr>
        in if k = ''success'' then
             s1\<lparr>consecutive_successes := consecutive_successes s1 + 1,
                consecutive_failures := 0, rate_limit_detected := False\<rparr>
           else if k \<in> set [''rate_limit'', ''error'', ''timeout''] then
             (let s' = s1\<lparr>consecutive_failures := consecutive_failures s1 + 1,
                           consecutive_successes := 0\<rparr>
              in if k = ''rate_limit'' then s'\<lparr>rate_limit_detected := True\<rparr> else s')
           else s1)"
  by (simp add: record_event_def Let_def if_distrib [of fst])

lemma record_event_bounds:
  assumes "min_delay rate_limit \<le> current_delay s"
    and "current_delay s \<le> max_dynamic_delay rate_limit"
  shows "min_delay rate_limit \<le> current_delay (fst (record_event k d r m (s, w)))
       \<and> current_delay (fst (record_event k d r m (s, w))) \<le> max_dynamic_delay rate_limit"
  unfolding fst_record_event
  by (rule adjust_delay_bounds) (use assms in \<open>simp_all add: Let_def\<close>)

lemma record_events_bounds:
  assumes "min_delay rate_limit \<le> current_delay (fst sw)"
    and "current_delay (fst sw) \<le> max_dynamic_delay rate_limit"
  shows "min_delay rate_limit \<le> current_delay (fst (record_events cs sw))
       \<and> current_delay (fst (record_events cs sw)) \<le> max_dynamic_delay rate_limit"
  using assms
proof (induction cs arbitrary: sw)
  case Nil
  then show ?case by simp
next
  case (Cons c cs)
  show ?case
    unfolding record_events.simps
    by (rule Cons.IH) (use Cons.prems record_event_bounds in \<open>blast+\<close>)
qed

subsection \<open>C1: the delay stays within its bounds\<close>

text \<open>
  C1. Starting from the fresh state (\<open>current_delay = min_delay = 3.0\<close>, no snapshot
  loaded), after any sequence of \<open>record_event\<close> calls, whatever their arguments, the
  clock and the state of the snapshot file, \<open>min_delay \<le> current_delay \<le> max_dynamic_delay\<close>
  holds, with \<open>min_delay = 3.0\<close> and \<open>max_dynamic_delay = 30.0\<close>. The statement is about
  every sequence, hence about every prefix of a run: it holds after every call.
\<close>

theorem delay_within_bounds:
  "min_delay rate_limit = 3 \<and> max_dynamic_delay rate_limit = 30
   \<and> fst (SmartAnalyzer_init (w0\<lparr>analysis_file := Missing\<rparr>)) = fresh
   \<and> current_delay fresh = 3
   \<and> 3 \<le> current_delay (fst (record_events cs (fresh, w)))
   \<and> current_delay (fst (record_events cs (fresh, w))) \<le> 30"
proof -
  have c: "min_delay rate_limit = 3" "max_dynamic_delay rate_limit = 30"
    by (simp_all add: rate_limit_def)
  have "min_delay rate_limit \<le> current_delay (fst (fresh, w))"
    "current_delay (fst (fresh, w)) \<le> max_dynamic_delay rate_limit"
    by (simp_all add: fresh_def rate_limit_def)
  from record_events_bounds [OF this, of cs] c show ?thesis
    by (simp add: fresh_def SmartAnalyzer_init_def load_analysis_def)
qed

theorem delay_within_bounds_witness:
  "3 \<le> current_delay (fst (record_events
       [\<lparr>at_time = 1000, can_write = True, kind = ''rate_limit'', used = 900, took = 0, msg = ''x''\<rparr>,
        \<lparr>at_time = 1001, can_write = True, kind = ''error'', used = 0, took = 1, msg = ''y''\<rparr>]
       (fresh, world0)))
   \<and> current_delay (fst (record_events
       [\<lparr>at_time = 1000, can_write = True, kind = ''rate_limit'', used = 900, took = 0, msg = ''x''\<rparr>,
        \<lparr>at_time = 1001, can_write = True, kind = ''error'', used = 0, took = 1, msg = ''y''\<rparr>]
       (fresh, world0))) \<le> 30"
  using delay_within_bounds [of world0
       "[\<lparr>at_time = 1000, can_write = True, kind = ''rate_limit'', used = 900, took = 0, msg = ''x''\<rparr>,
         \<lparr>at_time = 1001, can_write = True, kind = ''error'', used = 0, took = 1, msg = ''y''\<rparr>]"
       world0]
  by simp

subsection \<open>C2: a rate limit followed by an error\<close>

text \<open>
  C2. From the fresh state (\<open>current_delay = 3.0\<close>), \<open>record_event('rate_limit', ...)\<close>
  sets the flag and doubles the delay to 6.0 (the doubling fires on the first rate-limit
  event alone: flag set and one consecutive failure); a following
  \<open>record_event('error', ...)\<close> leaves the flag set and applies first the failure-increase
  factor 1.5, clamped to 30.0, and then the doubling, clamped to 30.0: 6.0 * 1.5 = 9.0
  and 9.0 * 2 = 18.0. The arguments of the calls and the environment of the second call
  are arbitrary.
\<close>

theorem rate_limit_then_error:
  "current_delay fresh = 3
   \<and> rate_limit_detected (fst (record_event ''rate_limit'' d1 r1 m1 (fresh, w1)))
   \<and> consecutive_failures (fst (record_event ''rate_limit'' d1 r1 m1 (fresh, w1))) = 1
   \<and> current_delay (fst (record_event ''rate_limit'' d1 r1 m1 (fresh, w1))) = 6
   \<and> rate_limit_detected
       (fst (record_event ''error'' d2 r2 m2
          (fst (record_event ''rate_limit'' d1 r1 m1 (fresh, w1)), w2)))
   \<and> current_delay
       (fst (record_event ''error'' d2 r2 m2
          (fst (record_event ''rate_limit'' d1 r1 m1 (fresh, w1)), w2)))
       = min (max_dynamic_delay rate_limit)
           (min (current_delay (fst (record_event ''rate_limit'' d1 r1 m1 (fresh, w1)))
                   * failure_increase rate_limit)
                (max_dynamic_delay rate_limit) * 2)
   \<and> current_delay
       (fst (record_event ''error'' d2 r2 m2
          (fst (record_event ''rate_limit'' d1 r1 m1 (fresh, w1)), w2))) = 18"
  by (simp add: fst_record_event adjust_delay_def fresh_def rate_limit_def Let_def)

theorem rate_limit_then_error_witness:
  "current_delay
     (fst (record_event ''error'' 0 1 ''boom''
        (fst (record_event ''rate_limit'' 900 0 ''limited'' (fresh, world0)),
         world0\<lparr>clock := 1900\<rparr>))) = 18"
  using rate_limit_then_error [of 900 0 "''limited''" world0 0 1 "''boom''" "world0\<lparr>clock := 1900\<rparr>"]
  by blast

subsection \<open>C4: the rate-limit flag\<close>

text \<open>
  C4. For every state and every outcome kind, after \<open>record_event(kind, ...)\<close> the flag
  \<open>rate_limit_detected\<close> is true if the kind is \<open>rate_limit\<close>, false if it is
  \<open>success\<close>, and unchanged if it is \<open>error\<close> or \<open>timeout\<close> (or any other string).
\<close>

theorem flag_after_record_event:
  "rate_limit_detected (fst (record_event k d r m (s, w))) =
     (if k = ''rate_limit'' then True
      else if k = ''success'' then False
      else rate_limit_detected s)"
  by (simp add: fst_record_event Let_def)

theorem flag_after_record_event_witness:
  "rate_limit_detected (fst (record_event ''rate_limit'' 0 0 [] (fresh, world0)))
   \<and> \<not> rate_limit_detected
         (fst (record_event ''success'' 0 0 [] (fresh\<lparr>rate_limit_detected := True\<rparr>, world0)))
   \<and> rate_limit_detected
         (fst (record_event ''error'' 0 0 [] (fresh\<lparr>rate_limit_detected := True\<rparr>, world0)))
   \<and> rate_limit_detected
         (fst (record_event ''timeout'' 0 0 [] (fresh\<lparr>rate_limit_detected := True\<rparr>, world0)))
   \<and> \<not> rate_limit_detected (fst (record_event ''timeout'' 0 0 [] (fresh, world0)))"
  using flag_after_record_event [of "''rate_limit''" 0 0 "[]" fresh world0]
    flag_after_record_event [of "''success''" 0 0 "[]" "fresh\<lparr>rate_limit_detected := True\<rparr>" world0]
    flag_after_record_event [of "''error''" 0 0 "[]" "fresh\<lparr>rate_limit_detected := True\<rparr>" world0]
    flag_after_record_event [of "''timeout''" 0 0 "[]" "fresh\<lparr>rate_limit_detected := True\<rparr>" world0]
    flag_after_record_event [of "''timeout''" 0 0 "[]" fresh world0]
  by (simp add: fresh_def)

subsection \<open>C3: the two counters\<close>

lemma record_event_counters:
  assumes "0 \<le> consecutive_successes s" and "0 \<le> consecutive_failures s"
    and "consecutive_successes s = 0 \<or> consecutive_failures s = 0"
  shows "0 \<le> consecutive_successes (fst (record_event k d r m (s, w)))
       \<and> 0 \<le> consecutive_failures (fst (record_event k d r m (s, w)))
       \<and> (consecutive_successes (fst (record_event k d r m (s, w))) = 0
          \<or> consecutive_failures (fst (record_event k d r m (s, w))) = 0)"
  using assms by (auto simp add: fst_record_event Let_def)

lemma record_event_one_nonzero:
  assumes "0 \<le> consecutive_successes s" and "0 \<le> consecutive_failures s"
    and "consecutive_successes s = 0 \<or> consecutive_failures s = 0"
    and "k \<in> set [''success'', ''rate_limit'', ''error'', ''timeout'']
         \<or> (consecutive_successes s \<noteq> 0) \<noteq> (consecutive_failures s \<noteq> 0)"
  shows "(consecutive_successes (fst (record_event k d r m (s, w))) \<noteq> 0)
         \<noteq> (consecutive_failures (fst (record_event k d r m (s, w))) \<noteq> 0)"
  using assms by (auto simp add: fst_record_event Let_def)

lemma record_events_counters:
  assumes "0 \<le> consecutive_successes (fst sw)" and "0 \<le> consecutive_failures (fst sw)"
    and "consecutive_successes (fst sw) = 0 \<or> consecutive_failures (fst sw) = 0"
  shows "0 \<le> consecutive_successes (fst (record_events cs sw))
       \<and> 0 \<le> consecutive_failures (fst (record_events cs sw))
       \<and> (consecutive_successes (fst (record_events cs sw)) = 0
          \<or> consecutive_failures (fst (record_events cs sw)) = 0)"
  using assms
proof (induction cs arbitrary: sw)
  case Nil
  then show ?case by simp
next
  case (Cons c cs)
  have step: "0 \<le> consecutive_successes (fst (record_event (kind c) (used c) (took c) (msg c)
                  (fst sw, (snd sw)\<lparr>clock := at_time c, writable := can_write c\<rparr>)))
       \<and> 0 \<le> consecutive_failures (fst (record_event (kind c) (used c) (took c) (msg c)
                  (fst sw, (snd sw)\<lparr>clock := at_time c, writable := can_write c\<rparr>)))
       \<and> (consecutive_successes (fst (record_event (kind c) (used c) (took c) (msg c)
                  (fst sw, (snd sw)\<lparr>clock := at_time c, writable := can_write c\<rparr>))) = 0
          \<or> consecutive_failures (fst (record_event (kind c) (used c) (took c) (msg c)
                  (fst sw, (snd sw)\<lparr>clock := at_time c, writable := can_write c\<rparr>))) = 0)"
    by (rule record_event_counters) (use Cons.prems in simp_all)
  show ?case
    unfolding record_events.simps
    by (rule Cons.IH) (use step in simp_all)
qed

lemma record_events_one_nonzero:
  assumes "0 \<le> consecutive_successes (fst sw)" and "0 \<le> consecutive_failures (fst sw)"
    and "consecutive_successes (fst sw) = 0 \<or> consecutive_failures (fst sw) = 0"
    and "(\<exists>c \<in> set cs. kind c \<in> set [''success'', ''rate_limit'', ''error'', ''timeout''])
         \<or> (consecutive_successes (fst sw) \<noteq> 0) \<noteq> (consecutive_failures (fst sw) \<noteq> 0)"
  shows "(consecutive_successes (fst (record_events cs sw)) \<noteq> 0)
         \<noteq> (consecutive_failures (fst (record_events cs sw)) \<noteq> 0)"
  using assms
proof (induction cs arbitrary: sw)
  case Nil
  then show ?case by simp
next
  case (Cons c cs)
  let ?sw = "record_event (kind c) (used c) (took c) (msg c)
               (fst sw, (snd sw)\<lparr>clock := at_time c, writable := can_write c\<rparr>)"
  have inv: "0 \<le> consecutive_successes (fst ?sw) \<and> 0 \<le> consecutive_failures (fst ?sw)
       \<and> (consecutive_successes (fst ?sw) = 0 \<or> consecutive_failures (fst ?sw) = 0)"
    by (rule record_event_counters) (use Cons.prems in simp_all)
  have one: "(\<exists>c \<in> set cs. kind c \<in> set [''success'', ''rate_limit'', ''error'', ''timeout''])
         \<or> (consecutive_successes (fst ?sw) \<noteq> 0) \<noteq> (consecutive_failures (fst ?sw) \<noteq> 0)"
  proof (cases "\<exists>c \<in> set cs. kind c \<in> set [''success'', ''rate_limit'', ''error'', ''timeout'']")
    case True
    then show ?thesis by blast
  next
    case False
    with Cons.prems(4)
    have "kind c \<in> set [''success'', ''rate_limit'', ''error'', ''timeout'']
         \<or> (consecutive_successes (fst sw) \<noteq> 0) \<noteq> (consecutive_failures (fst sw) \<noteq> 0)"
      by auto
    with Cons.prems(1-3)
    have "(consecutive_successes (fst ?sw) \<noteq> 0) \<noteq> (consecutive_failures (fst ?sw) \<noteq> 0)"
      by (intro record_event_one_nonzero)
    then show ?thesis by blast
  qed
  show ?case
    unfolding record_events.simps
    by (rule Cons.IH) (use inv one in simp_all)
qed

text \<open>
  C3 as stated fails at the instant before the first call: in the fresh state
  both counters are zero, so it is not the case that exactly one of them is nonzero.
\<close>

theorem counters_exactly_one_counterexample:
  "\<not> ((consecutive_successes (fst (record_events [] (fresh, world0))) \<noteq> 0)
       \<noteq> (consecutive_failures (fst (record_events [] (fresh, world0))) \<noteq> 0))"
  by (simp add: fresh_def)

text \<open>
  C3, amended. During any sequence of \<open>record_event\<close> calls from the fresh state the two
  counters are never both nonzero. Before the first call both are zero; once a call with
  one of the four outcome kinds has been made, exactly one of them is nonzero. A
  \<open>success\<close> resets \<open>consecutive_failures\<close> to zero and leaves \<open>consecutive_successes\<close>
  positive; a \<open>rate_limit\<close>, \<open>error\<close> or \<open>timeout\<close> resets \<open>consecutive_successes\<close>
  to zero and leaves \<open>consecutive_failures\<close> positive.
\<close>

theorem counters_mutually_exclusive:
  "consecutive_successes fresh = 0 \<and> consecutive_failures fresh = 0
   \<and> (consecutive_successes (fst (record_events cs (fresh, w))) = 0
      \<or> consecutive_failures (fst (record_events cs (fresh, w))) = 0)
   \<and> ((\<exists>c \<in> set cs. kind c \<in> set [''success'', ''rate_limit'', ''error'', ''timeout'']) \<longrightarrow>
        (consecutive_successes (fst (record_events cs (fresh, w))) \<noteq> 0)
        \<noteq> (consecutive_failures (fst (record_events cs (fresh, w))) \<noteq> 0))
   \<and> consecutive_failures
        (fst (record_event ''success'' d r m (fst (record_events cs (fresh, w)), w'))) = 0
   \<and> 0 < consecutive_successes
        (fst (record_event ''success'' d r m (fst (record_events cs (fresh, w)), w')))
   \<and> (k \<in> set [''rate_limit'', ''error'', ''timeout''] \<longrightarrow>
        consecutive_successes
          (fst (record_event k d r m (fst (record_events cs (fresh, w)), w'))) = 0
        \<and> 0 < consecutive_failures
          (fst (record_event k d r m (fst (record_events cs (fresh, w)), w'))))"
proof -
  have f: "0 \<le> consecutive_successes (fst (fresh, w))" "0 \<le> consecutive_failures (fst (fresh, w))"
    "consecutive_successes (fst (fresh, w)) = 0 \<or> consecutive_failures (fst (fresh, w)) = 0"
    by (simp_all add: fresh_def)
  note inv = record_events_counters [OF f, of cs]
  have one: "(consecutive_successes (fst (record_events cs (fresh, w))) \<noteq> 0)
        \<noteq> (consecutive_failures (fst (record_events cs (fresh, w))) \<noteq> 0)"
    if "\<exists>c \<in> set cs. kind c \<in> set [''success'', ''rate_limit'', ''error'', ''timeout'']"
    by (rule record_events_one_nonzero [OF f]) (use that in blast)
  have s: "consecutive_failures
        (fst (record_event ''success'' d r m (fst (record_events cs (fresh, w)), w'))) = 0
     \<and> 0 < consecutive_successes
        (fst (record_event ''success'' d r m (fst (record_events cs (fresh, w)), w')))"
    using inv by (simp add: fst_record_event Let_def)
  have e: "consecutive_successes
          (fst (record_event k d r m (fst (record_events cs (fresh, w)), w'))) = 0
        \<and> 0 < consecutive_failures
          (fst (record_event k d r m (fst (record_events cs (fresh, w)), w')))"
    if "k \<in> set [''rate_limit'', ''error'', ''timeout'']"
    using inv that by (auto simp add: fst_record_event Let_def)
  show ?thesis
    using inv one s e by (simp add: fresh_def)
qed

theorem counters_mutually_exclusive_witness:
  "(\<exists>c \<in> set [\<lparr>at_time = 1000, can_write = True, kind = ''success'', used = 0, took = 1, msg = []\<rparr>,
               \<lparr>at_time = 1004, can_write = True, kind = ''timeout'', used = 3, took = 9, msg = []\<rparr>].
       kind c \<in> set [''success'', ''rate_limit'', ''error'', ''timeout''])
   \<and> (consecutive_successes (fst (record_events
          [\<lparr>at_time = 1000, can_write = True, kind = ''success'', used = 0, took = 1, msg = []\<rparr>,
           \<lparr>at_time = 1004, can_write = True, kind = ''timeout'', used = 3, took = 9, msg = []\<rparr>]
          (fresh, world0))) \<noteq> 0)
      \<noteq> (consecutive_failures (fst (record_events
          [\<lparr>at_time = 1000, can_write = True, kind = ''success'', used = 0, took = 1, msg = []\<rparr>,
           \<lparr>at_time = 1004, can_write = True, kind = ''timeout'', used = 3, took = 9, msg = []\<rparr>]
          (fresh, world0))) \<noteq> 0)
   \<and> ''error'' \<in> set [''rate_limit'', ''error'', ''timeout'']
   \<and> consecutive_successes (fst (record_event ''error'' 0 0 []
        (fst (record_events
          [\<lparr>at_time = 1000, can_write = True, kind = ''success'', used = 0, took = 1, msg = []\<rparr>,
           \<lparr>at_time = 1004, can_write = True, kind = ''timeout'', used = 3, took = 9, msg = []\<rparr>]
          (fresh, world0)), world0))) = 0"
  using counters_mutually_exclusive [of
      "[\<lparr>at_time = 1000, can_write = True, kind = ''success'', used = 0, took = 1, msg = []\<rparr>,
        \<lparr>at_time = 1004, can_write = True, kind = ''timeout'', used = 3, took = 9, msg = []\<rparr>]"
      world0 0 0 "[]" world0 "''error''"]
  by simp

subsection \<open>C5: the recommended delay\<close>

text \<open>
  C5. For every controller state and every jitter draw \<open>j\<close> in \<open>[0.8, 1.2]\<close>,
  \<open>get_next_delay\<close> returns
  \<open>min(current_delay * j * (2 if rate_limit_detected else 1), max_dynamic_delay)\<close>, with
  \<open>max_dynamic_delay = 30.0\<close>, and leaves every field of the controller as it was.
\<close>

theorem get_next_delay_value:
  assumes "8 / 10 \<le> j" and "j \<le> 12 / 10"
  shows "fst (get_next_delay j s) =
           min (current_delay s * j * (if rate_limit_detected s then 2 else 1))
               (max_dynamic_delay rate_limit)
       \<and> max_dynamic_delay rate_limit = 30
       \<and> snd (get_next_delay j s) = s"
  by (simp add: get_next_delay_def Let_def rate_limit_def)

theorem get_next_delay_value_witness:
  "(8 / 10 \<le> (11 / 10 :: real)) \<and> (11 / 10 \<le> (12 / 10 :: real))
   \<and> fst (get_next_delay (11 / 10) (fresh\<lparr>current_delay := 10, rate_limit_detected := True\<rparr>)) = 22
   \<and> fst (get_next_delay (11 / 10) (fresh\<lparr>current_delay := 20, rate_limit_detected := True\<rparr>)) = 30
   \<and> fst (get_next_delay (11 / 10) (fresh\<lparr>current_delay := 20\<rparr>)) = 22
   \<and> snd (get_next_delay (11 / 10) (fresh\<lparr>current_delay := 20\<rparr>)) = fresh\<lparr>current_delay := 20\<rparr>"
proof -
  have j: "8 / 10 \<le> (11 / 10 :: real)" "11 / 10 \<le> (12 / 10 :: real)"
    by simp_all
  show ?thesis
    using j
      get_next_delay_value [OF j, of "fresh\<lparr>current_delay := 10, rate_limit_detected := True\<rparr>"]
      get_next_delay_value [OF j, of "fresh\<lparr>current_delay := 20, rate_limit_detected := True\<rparr>"]
      get_next_delay_value [OF j, of "fresh\<lparr>current_delay := 20\<rparr>"]
    by (simp add: fresh_def)
qed

subsection \<open>C9: the status report\<close>

text \<open>
  C9. \<open>get_status_report\<close>: when no event has a timestamp within the last hour
  (\<open>timestamp > now - 3600\<close>) the report is \<open>no_data\<close> with the current delay and
  \<open>rate_limit_detected\<close> reported as false. Otherwise, with \<open>success_rate\<close> the share of
  \<open>success\<close> events in the window, the status is \<open>rate_limited\<close> when the flag is set,
  else \<open>optimal\<close> when \<open>success_rate > 0.9\<close>, else \<open>cautious\<close> when
  \<open>success_rate > 0.7\<close>, else \<open>problematic\<close>. The controller state is not changed.
\<close>

theorem status_report_classification:
  "(filter (\<lambda>e. timestamp e > clock w - 3600) (events s) = [] \<longrightarrow>
      fst (get_status_report s w) =
        [(''status'', PyStr ''no_data''),
         (''message'', PyStr ''No recent activity to analyze''),
         (''current_delay'', PyFloat (current_delay s)),
         (''rate_limit_detected'', PyBool False)])
   \<and> (filter (\<lambda>e. timestamp e > clock w - 3600) (events s) \<noteq> [] \<longrightarrow>
      map_of (fst (get_status_report s w)) ''success_rate'' =
        Some (PyFloat
          (real (length (filter (\<lambda>e. event_type e = ''success'')
                   (filter (\<lambda>e. timestamp e > clock w - 3600) (events s))))
           / real (length (filter (\<lambda>e. timestamp e > clock w - 3600) (events s)))))
      \<and> map_of (fst (get_status_report s w)) ''status'' =
        Some (PyStr
          (if rate_limit_detected s then ''rate_limited''
           else if real (length (filter (\<lambda>e. event_type e = ''success'')
                     (filter (\<lambda>e. timestamp e > clock w - 3600) (events s))))
                   / real (length (filter (\<lambda>e. timestamp e > clock w - 3600) (events s)))
                   > 9 / 10
                then ''optimal''
           else if real (length (filter (\<lambda>e. event_type e = ''success'')
                     (filter (\<lambda>e. timestamp e > clock w - 3600) (events s))))
                   / real (length (filter (\<lambda>e. timestamp e > clock w - 3600) (events s)))
                   > 7 / 10
                then ''cautious''
           else ''problematic'')))
   \<and> snd (get_status_report s w) = s"
  by (simp add: get_status_report_def Let_def)

theorem status_report_classification_witness:
  "fst (get_status_report fresh world0) =
        [(''status'', PyStr ''no_data''),
         (''message'', PyStr ''No recent activity to analyze''),
         (''current_delay'', PyFloat 3),
         (''rate_limit_detected'', PyBool False)]
   \<and> map_of (fst (get_status_report
        (fresh\<lparr>events :=
           [\<lparr>timestamp = 10, event_type = ''error'', delay_used = 3, response_time = 1, error_message = []\<rparr>,
            \<lparr>timestamp = 900, event_type = ''success'', delay_used = 3, response_time = 1, error_message = []\<rparr>,
            \<lparr>timestamp = 950, event_type = ''timeout'', delay_used = 3, response_time = 1, error_message = []\<rparr>,
            \<lparr>timestamp = 990, event_type = ''success'', delay_used = 3, response_time = 1, error_message = []\<rparr>]\<rparr>)
        (world0\<lparr>clock := 4000\<rparr>))) ''status'' = Some (PyStr ''problematic'')
   \<and> map_of (fst (get_status_report
        (fresh\<lparr>events :=
           [\<lparr>timestamp = 990, event_type = ''success'', delay_used = 3, response_time = 1, error_message = []\<rparr>],
           rate_limit_detected := True\<rparr>)
        world0)) ''status'' = Some (PyStr ''rate_limited'')"
  using status_report_classification [of world0 fresh]
    status_report_classification [of "world0\<lparr>clock := 4000\<rparr>"
      "fresh\<lparr>events :=
           [\<lparr>timestamp = 10, event_type = ''error'', delay_used = 3, response_time = 1, error_message = []\<rparr>,
            \<lparr>timestamp = 900, event_type = ''success'', delay_used = 3, response_time = 1, error_message = []\<rparr>,
            \<lparr>timestamp = 950, event_type = ''timeout'', delay_used = 3, response_time = 1, error_message = []\<rparr>,
            \<lparr>timestamp = 990, event_type = ''success'', delay_used = 3, response_time = 1, error_message = []\<rparr>]\<rparr>"]
    status_report_classification [of world0
      "fresh\<lparr>events :=
           [\<lparr>timestamp = 990, event_type = ''success'', delay_used = 3, response_time = 1, error_message = []\<rparr>],
           rate_limit_detected := True\<rparr>"]
  by (simp add: fresh_def world0_def rate_limit_def)

subsection \<open>Saving and loading\<close>

lemma RateLimitEvent_init_asdict: "RateLimitEvent_init (asdict e) = Inr e"
  by (simp add: RateLimitEvent_init_def asdict_def)

lemma events_of_dicts_asdict: "events_of_dicts (map asdict es) = Inr es"
  by (induction es) (simp_all add: RateLimitEvent_init_asdict)

lemma analysis_file_save_analysis:
  "writable w \<Longrightarrow>
   analysis_file (snd (save_analysis (s, w))) =
     Snapshot \<lparr>j_current_delay = Some (current_delay s),
               j_consecutive_successes = Some (consecutive_successes s),
               j_consecutive_failures = Some (consecutive_failures s),
               j_rate_limit_detected = Some (rate_limit_detected s),
               j_last_updated = Some (clock w),
               j_recent_events = Some (map asdict (last_100 (events s)))\<rparr>"
  by (simp add: save_analysis_def Let_def)

text \<open>What \<open>__init__\<close> returns when the snapshot is recent and every event record builds.\<close>

lemma init_recent_snapshot:
  assumes "analysis_file w = Snapshot data"
    and "clock w - (case j_last_updated data of None \<Rightarrow> 0 | Some t \<Rightarrow> t) < 86400"
    and "events_of_dicts (case j_recent_events data of None \<Rightarrow> [] | Some l \<Rightarrow> l) = Inr evs"
  shows "SmartAnalyzer_init w =
           (\<lparr>events = evs,
             current_delay =
               (case j_current_delay data of None \<Rightarrow> min_delay rate_limit | Some v \<Rightarrow> v),
             consecutive_successes =
               (case j_consecutive_successes data of None \<Rightarrow> 0 | Some v \<Rightarrow> v),
             consecutive_failures =
               (case j_consecutive_failures data of None \<Rightarrow> 0 | Some v \<Rightarrow> v),
             last_request_time = 0,
             rate_limit_detected =
               (case j_rate_limit_detected data of None \<Rightarrow> False | Some v \<Rightarrow> v)\<rparr>, w)"
  using assms by (simp add: SmartAnalyzer_init_def load_analysis_def fresh_def Let_def)

lemma init_stale_snapshot:
  assumes "analysis_file w = Snapshot data"
    and "\<not> clock w - (case j_last_updated data of None \<Rightarrow> 0 | Some t \<Rightarrow> t) < 86400"
  shows "SmartAnalyzer_init w = (fresh, w)"
  using assms by (simp add: SmartAnalyzer_init_def load_analysis_def)

lemma init_after_save_recent:
  assumes "writable w" and "analysis_file w' = analysis_file (snd (save_analysis (s, w)))"
    and "clock w' - clock w < 86400"
  shows "fst (SmartAnalyzer_init w') =
           \<lparr>events = last_100 (events s), current_delay = current_delay s,
            consecutive_successes = consecutive_successes s,
            consecutive_failures = consecutive_failures s,
            last_request_time = 0, rate_limit_detected = rate_limit_detected s\<rparr>"
proof -
  note f = assms(2) [unfolded analysis_file_save_analysis [OF assms(1)]]
  show ?thesis
    by (subst init_recent_snapshot [OF f, where evs = "last_100 (events s)"])
       (simp_all add: assms(3) events_of_dicts_asdict)
qed

lemma init_after_save_stale:
  assumes "writable w" and "analysis_file w' = analysis_file (snd (save_analysis (s, w)))"
    and "\<not> clock w' - clock w < 86400"
  shows "fst (SmartAnalyzer_init w') = fresh"
proof -
  note f = assms(2) [unfolded analysis_file_save_analysis [OF assms(1)]]
  show ?thesis
    by (subst init_stale_snapshot [OF f]) (simp_all add: assms(3))
qed

lemma length_last_100: "length (last_100 xs) = min (length xs) 100"
  by (simp add: last_100_def)

subsection \<open>C6: saving, then loading\<close>

text \<open>
  C6 as stated fails for a controller that holds more than 100 events:
  \<open>_save_analysis\<close> writes \<open>self.events[-100:]\<close>, so a controller with 101 events, saved at
  time 1000 and loaded one second later, comes back with 100 events.
\<close>

theorem save_then_load_counterexample:
  "writable world0
   \<and> clock (world0\<lparr>clock := 1001\<rparr>) - clock world0 < 86400
   \<and> events (fst (SmartAnalyzer_init
        ((snd (save_analysis
           (fresh\<lparr>events := replicate 101
              \<lparr>timestamp = 990, event_type = ''success'', delay_used = 3,
               response_time = 1, error_message = []\<rparr>\<rparr>, world0)))\<lparr>clock := 1001\<rparr>)))
     \<noteq> events (fresh\<lparr>events := replicate 101
              \<lparr>timestamp = 990, event_type = ''success'', delay_used = 3,
               response_time = 1, error_message = []\<rparr>\<rparr>)"
proof -
  let ?s = "fresh\<lparr>events := replicate 101
              \<lparr>timestamp = 990, event_type = ''success'', delay_used = 3,
               response_time = 1, error_message = []\<rparr>\<rparr>"
  let ?w = "(snd (save_analysis (?s, world0)))\<lparr>clock := 1001\<rparr>"
  have w: "writable world0" and t: "clock ?w - clock world0 < 86400"
    by (simp_all add: world0_def)
  have "analysis_file ?w = analysis_file (snd (save_analysis (?s, world0)))"
    by simp
  from init_after_save_recent [OF w this t]
  have "length (events (fst (SmartAnalyzer_init ?w))) = 100"
    by (simp add: length_last_100)
  moreover have "length (events ?s) = 101"
    by simp
  ultimately have "events (fst (SmartAnalyzer_init ?w)) \<noteq> events ?s"
    by auto
  with w show ?thesis
    by (simp add: world0_def)
qed

text \<open>
  C6, amended. When \<open>_save_analysis\<close> has written the snapshot and a controller is
  constructed from that file less than 24 hours (86400 seconds) after the save, it has the
  saved \<open>current_delay\<close>, \<open>consecutive_successes\<close>, \<open>consecutive_failures\<close> and
  \<open>rate_limit_detected\<close>, and its event list is the last 100 events of the saved
  controller, in the same order: the identical list when there were at most 100. When the
  snapshot is 24 hours old or older, the controller is in the default fresh state.
\<close>

theorem save_then_load:
  assumes "writable w" and "analysis_file w' = analysis_file (snd (save_analysis (s, w)))"
  shows "(clock w' - clock w < 86400 \<longrightarrow>
            current_delay (fst (SmartAnalyzer_init w')) = current_delay s
          \<and> consecutive_successes (fst (SmartAnalyzer_init w')) = consecutive_successes s
          \<and> consecutive_failures (fst (SmartAnalyzer_init w')) = consecutive_failures s
          \<and> rate_limit_detected (fst (SmartAnalyzer_init w')) = rate_limit_detected s
          \<and> events (fst (SmartAnalyzer_init w')) = drop (length (events s) - 100) (events s)
          \<and> (length (events s) \<le> 100 \<longrightarrow> events (fst (SmartAnalyzer_init w')) = events s))
       \<and> (86400 \<le> clock w' - clock w \<longrightarrow>
            fst (SmartAnalyzer_init w') = fresh
          \<and> current_delay fresh = min_delay rate_limit
          \<and> consecutive_successes fresh = 0 \<and> consecutive_failures fresh = 0
          \<and> \<not> rate_limit_detected fresh \<and> events fresh = [])"
proof (intro conjI impI)
  assume "86400 \<le> clock w' - clock w"
  then have "\<not> clock w' - clock w < 86400"
    by simp
  from init_after_save_stale [OF assms this]
  show "fst (SmartAnalyzer_init w') = fresh" .
qed (simp_all add: init_after_save_recent [OF assms] last_100_def, simp_all add: fresh_def)

theorem save_then_load_witness:
  "writable world0
   \<and> current_delay (fst (SmartAnalyzer_init
        ((snd (save_analysis
           (\<lparr>events = [\<lparr>timestamp = 990, event_type = ''rate_limit'', delay_used = 3,
                         response_time = 1, error_message = ''limited''\<rparr>],
             current_delay = 6, consecutive_successes = 0, consecutive_failures = 1,
             last_request_time = 985, rate_limit_detected = True\<rparr>, world0)))\<lparr>clock := 4600\<rparr>)))
       = 6
   \<and> events (fst (SmartAnalyzer_init
        ((snd (save_analysis
           (\<lparr>events = [\<lparr>timestamp = 990, event_type = ''rate_limit'', delay_used = 3,
                         response_time = 1, error_message = ''limited''\<rparr>],
             current_delay = 6, consecutive_successes = 0, consecutive_failures = 1,
             last_request_time = 985, rate_limit_detected = True\<rparr>, world0)))\<lparr>clock := 4600\<rparr>)))
       = [\<lparr>timestamp = 990, event_type = ''rate_limit'', delay_used = 3,
           response_time = 1, error_message = ''limited''\<rparr>]
   \<and> fst (SmartAnalyzer_init
        ((snd (save_analysis
           (\<lparr>events = [\<lparr>timestamp = 990, event_type = ''rate_limit'', delay_used = 3,
                         response_time = 1, error_message = ''limited''\<rparr>],
             current_delay = 6, consecutive_successes = 0, consecutive_failures = 1,
             last_request_time = 985, rate_limit_detected = True\<rparr>, world0)))\<lparr>clock := 90000\<rparr>))
       = fresh"
proof -
  let ?s = "\<lparr>events = [\<lparr>timestamp = 990, event_type = ''rate_limit'', delay_used = 3,
                         response_time = 1, error_message = ''limited''\<rparr>],
             current_delay = 6, consecutive_successes = 0, consecutive_failures = 1,
             last_request_time = 985, rate_limit_detected = True\<rparr>"
  have w: "writable world0"
    by (simp add: world0_def)
  have a: "analysis_file ((snd (save_analysis (?s, world0)))\<lparr>clock := t\<rparr>)
             = analysis_file (snd (save_analysis (?s, world0)))" for t
    by simp
  show ?thesis
    using w save_then_load [OF w a [of 4600]] save_then_load [OF w a [of 90000]]
    by (simp add: world0_def)
qed

subsection \<open>C7: a snapshot with a malformed event record\<close>

text \<open>
  C7. The snapshot below parses, is 100 seconds old, and its one event record has no
  \<open>event_type\<close> and no \<open>delay_used\<close>, so \<open>RateLimitEvent(**event)\<close> raises. The
  exception is caught and the warning printed, but \<open>current_delay\<close>,
  \<open>consecutive_failures\<close> and \<open>rate_limit_detected\<close> already hold the values of the
  snapshot: the controller is not in the fresh state. A file that cannot be read or
  parsed, and a missing file, do leave the fresh state.
\<close>

theorem load_malformed_event_record:
  "SmartAnalyzer_init
     (world0\<lparr>analysis_file := Snapshot
        \<lparr>j_current_delay = Some 20, j_consecutive_successes = Some 0,
         j_consecutive_failures = Some 4, j_rate_limit_detected = Some True,
         j_last_updated = Some 900,
         j_recent_events = Some
           [\<lparr>d_timestamp = Some 890, d_event_type = None, d_delay_used = None,
             d_response_time = None, d_error_message = None, d_unexpected = []\<rparr>]\<rparr>\<rparr>)
     = (fresh\<lparr>current_delay := 20, consecutive_failures := 4, rate_limit_detected := True\<rparr>,
        world0\<lparr>analysis_file := Snapshot
          \<lparr>j_current_delay = Some 20, j_consecutive_successes = Some 0,
           j_consecutive_failures = Some 4, j_rate_limit_detected = Some True,
           j_last_updated = Some 900,
           j_recent_events = Some
             [\<lparr>d_timestamp = Some 890, d_event_type = None, d_delay_used = None,
               d_response_time = None, d_error_message = None, d_unexpected = []\<rparr>]\<rparr>,
          printed := [LoadWarning]\<rparr>)
   \<and> fresh\<lparr>current_delay := 20, consecutive_failures := 4, rate_limit_detected := True\<rparr> \<noteq> fresh
   \<and> SmartAnalyzer_init (world0\<lparr>analysis_file := Unreadable\<rparr>)
       = (fresh, world0\<lparr>analysis_file := Unreadable, printed := [LoadWarning]\<rparr>)
   \<and> SmartAnalyzer_init world0 = (fresh, world0)"
  by (simp add: SmartAnalyzer_init_def load_analysis_def RateLimitEvent_init_def
      fresh_def world0_def rate_limit_def Let_def)

subsection \<open>C10: loading does not validate\<close>

text \<open>
  C10. For every snapshot that is less than 24 hours old and whose event records all
  build, \<open>_load_analysis\<close> copies \<open>current_delay\<close>, \<open>consecutive_successes\<close>,
  \<open>consecutive_failures\<close> and \<open>rate_limit_detected\<close> into the controller as they are
  in the file, without clamping the delay to \<open>[min_delay, max_dynamic_delay]\<close> and
  without checking that one of the counters is zero. There is such a snapshot after whose
  load the delay is above \<open>max_dynamic_delay\<close> and both counters are nonzero, and the
  delay is still above \<open>max_dynamic_delay\<close> after a further \<open>record_event\<close>: the bounds
  on the delay and the exclusion of the counters hold for runs that start from the fresh
  state only.
\<close>

theorem load_copies_verbatim:
  assumes "analysis_file w = Snapshot data"
    and "j_last_updated data = Some saved" and "clock w - saved < 86400"
    and "j_current_delay data = Some cd" and "j_consecutive_successes data = Some cs"
    and "j_consecutive_failures data = Some cf" and "j_rate_limit_detected data = Some flag"
    and "j_recent_events data = Some ds" and "events_of_dicts ds = Inr evs"
  shows "current_delay (fst (SmartAnalyzer_init w)) = cd
       \<and> consecutive_successes (fst (SmartAnalyzer_init w)) = cs
       \<and> consecutive_failures (fst (SmartAnalyzer_init w)) = cf
       \<and> rate_limit_detected (fst (SmartAnalyzer_init w)) = flag
       \<and> events (fst (SmartAnalyzer_init w)) = evs
       \<and> (\<exists>w0 data0.
            analysis_file w0 = Snapshot data0
          \<and> clock w0 - (case j_last_updated data0 of None \<Rightarrow> 0 | Some t \<Rightarrow> t) < 86400
          \<and> events_of_dicts (case j_recent_events data0 of None \<Rightarrow> [] | Some l \<Rightarrow> l) = Inr []
          \<and> max_dynamic_delay rate_limit < current_delay (fst (SmartAnalyzer_init w0))
          \<and> consecutive_successes (fst (SmartAnalyzer_init w0)) \<noteq> 0
          \<and> consecutive_failures (fst (SmartAnalyzer_init w0)) \<noteq> 0
          \<and> max_dynamic_delay rate_limit
              < current_delay (fst (record_event ''success'' 0 0 [] (SmartAnalyzer_init w0))))"
proof -
  have "clock w - (case j_last_updated data of None \<Rightarrow> 0 | Some t \<Rightarrow> t) < 86400"
    and "events_of_dicts (case j_recent_events data of None \<Rightarrow> [] | Some l \<Rightarrow> l) = Inr evs"
    using assms by simp_all
  note copy = init_recent_snapshot [OF assms(1) this]
  let ?d = "\<lparr>j_current_delay = Some 100, j_consecutive_successes = Some 2,
             j_consecutive_failures = Some 3, j_rate_limit_detected = Some False,
             j_last_updated = Some 900, j_recent_events = Some []\<rparr>"
  let ?w = "world0\<lparr>analysis_file := Snapshot ?d\<rparr>"
  have f: "analysis_file ?w = Snapshot ?d"
    and t: "clock ?w - (case j_last_updated ?d of None \<Rightarrow> 0 | Some t \<Rightarrow> t) < 86400"
    and e: "events_of_dicts (case j_recent_events ?d of None \<Rightarrow> [] | Some l \<Rightarrow> l) = Inr []"
    by (simp_all add: world0_def)
  have "max_dynamic_delay rate_limit < current_delay (fst (SmartAnalyzer_init ?w))
      \<and> consecutive_successes (fst (SmartAnalyzer_init ?w)) \<noteq> 0
      \<and> consecutive_failures (fst (SmartAnalyzer_init ?w)) \<noteq> 0
      \<and> max_dynamic_delay rate_limit
          < current_delay (fst (record_event ''success'' 0 0 [] (SmartAnalyzer_init ?w)))"
    unfolding init_recent_snapshot [OF f t e]
    by (simp add: fst_record_event adjust_delay_def rate_limit_def Let_def)
  with f t e have "\<exists>w0 data0.
            analysis_file w0 = Snapshot data0
          \<and> clock w0 - (case j_last_updated data0 of None \<Rightarrow> 0 | Some t \<Rightarrow> t) < 86400
          \<and> events_of_dicts (case j_recent_events data0 of None \<Rightarrow> [] | Some l \<Rightarrow> l) = Inr []
          \<and> max_dynamic_delay rate_limit < current_delay (fst (SmartAnalyzer_init w0))
          \<and> consecutive_successes (fst (SmartAnalyzer_init w0)) \<noteq> 0
          \<and> consecutive_failures (fst (SmartAnalyzer_init w0)) \<noteq> 0
          \<and> max_dynamic_delay rate_limit
              < current_delay (fst (record_event ''success'' 0 0 [] (SmartAnalyzer_init w0)))"
    by blast
  then show ?thesis
    using assms by (simp add: copy)
qed

theorem load_copies_verbatim_witness:
  "current_delay (fst (SmartAnalyzer_init
      (world0\<lparr>analysis_file := Snapshot
         \<lparr>j_current_delay = Some 100, j_consecutive_successes = Some 2,
          j_consecutive_failures = Some 3, j_rate_limit_detected = Some False,
          j_last_updated = Some 900, j_recent_events = Some []\<rparr>\<rparr>))) = 100
   \<and> consecutive_successes (fst (SmartAnalyzer_init
      (world0\<lparr>analysis_file := Snapshot
         \<lparr>j_current_delay = Some 100, j_consecutive_successes = Some 2,
          j_consecutive_failures = Some 3, j_rate_limit_detected = Some False,
          j_last_updated = Some 900, j_recent_events = Some []\<rparr>\<rparr>))) = 2
   \<and> consecutive_failures (fst (SmartAnalyzer_init
      (world0\<lparr>analysis_file := Snapshot
         \<lparr>j_current_delay = Some 100, j_consecutive_successes = Some 2,
          j_consecutive_failures = Some 3, j_rate_limit_detected = Some False,
          j_last_updated = Some 900, j_recent_events = Some []\<rparr>\<rparr>))) = 3"
proof -
  let ?d = "\<lparr>j_current_delay = Some 100, j_consecutive_successes = Some 2,
             j_consecutive_failures = Some 3, j_rate_limit_detected = Some False,
             j_last_updated = Some 900, j_recent_events = Some []\<rparr>"
  let ?w = "world0\<lparr>analysis_file := Snapshot ?d\<rparr>"
  have "analysis_file ?w = Snapshot ?d" "j_last_updated ?d = Some 900"
    "clock ?w - 900 < 86400" "j_current_delay ?d = Some 100"
    "j_consecutive_successes ?d = Some 2" "j_consecutive_failures ?d = Some 3"
    "j_rate_limit_detected ?d = Some False" "j_recent_events ?d = Some []"
    "events_of_dicts [] = Inr []"
    by (simp_all add: world0_def)
  from load_copies_verbatim [OF this] show ?thesis
    by blast
qed

subsection \<open>Waiting: how far the clock moves\<close>

lemma clock_sleep: "clock w + secs \<le> clock (sleep secs w)"
  by (simp add: sleep_def)

text \<open>The progress loop returns no earlier than \<open>delay\<close> seconds after \<open>start_time\<close>.\<close>

lemma progress_loop_waits: "start_time + delay \<le> clock (progress_loop start_time delay w)"
proof (induction start_time delay w rule: progress_loop.induct)
  case (1 start_time delay w)
  show ?case
  proof (cases "clock w - start_time < delay")
    case True
    then have r: "\<not> delay - (clock w - start_time) \<le> 0"
      by simp
    have "progress_loop start_time delay w = progress_loop start_time delay (sleep 1 w)"
      using True by (subst progress_loop.simps) (simp add: Let_def)
    with "1.IH" [OF True refl refl refl r] show ?thesis
      by simp
  next
    case False
    then have "progress_loop start_time delay w = w"
      by (subst progress_loop.simps) simp
    with False show ?thesis
      by simp
  qed
qed

lemma last_request_time_wait:
  "last_request_time (fst (wait_with_progress d (s, w))) = clock (snd (wait_with_progress d (s, w)))"
  by (simp add: wait_with_progress_def Let_def)

lemma clock_wait: "clock w \<le> clock (snd (wait_with_progress d (s, w)))"
proof -
  have "clock w \<le> clock (progress_loop (clock w) x w)" if "0 < x" for x
    using progress_loop_waits [of "clock w" x w] that by simp
  moreover have "clock w \<le> clock (sleep x w)" if "0 < x" for x
    using clock_sleep [of w x] that by simp
  ultimately show ?thesis
    by (simp add: wait_with_progress_def Let_def)
qed

text \<open>The time the call blocks: at least the requested delay, and at least what is missing
  to \<open>min_delay\<close> since the last request.\<close>

lemma wait_blocks:
  assumes "0 < last_request_time s"
  shows "clock w + max d (min_delay rate_limit - (clock w - last_request_time s))
           \<le> clock (snd (wait_with_progress d (s, w)))"
proof -
  have p: "clock w + x \<le> clock (progress_loop (clock w) x w)" for x
    by (rule progress_loop_waits)
  have q: "clock w + x \<le> clock (sleep x w)" for x
    by (rule clock_sleep)
  show ?thesis
  proof (cases "clock w - last_request_time s < min_delay rate_limit")
    case True
    let ?delay = "max d (min_delay rate_limit - (clock w - last_request_time s))"
    have pos: "\<not> ?delay \<le> 0"
      using True by simp
    have "snd (wait_with_progress d (s, w)) =
            (if ?delay > 5 then progress_loop (clock w) ?delay w else sleep ?delay w)"
      using assms True pos by (simp add: wait_with_progress_def Let_def)
    then show ?thesis
      using p [of ?delay] q [of ?delay] by simp
  next
    case False
    have "snd (wait_with_progress d (s, w)) =
            (if d \<le> 0 then w else if d > 5 then progress_loop (clock w) d w else sleep d w)"
      using assms False by (simp add: wait_with_progress_def Let_def)
    then show ?thesis
      using p [of d] q [of d] False by (auto simp add: max_def)
  qed
qed

subsection \<open>C8: the minimum spacing of requests\<close>

text \<open>
  C8. Time is the clock of the environment, which \<open>time.sleep\<close> moves forward by at
  least the time asked for. Once \<open>last_request_time\<close> has been set (it is positive: the
  clock of a running system is), a call of \<open>wait_with_progress\<close> with any requested delay
  blocks for at least \<open>min_delay - elapsed\<close> and sets \<open>last_request_time\<close> no earlier
  than \<open>min_delay\<close> = 3.0 seconds after its previous value. In particular, for two calls
  one after the other with no time elapsing between them (the second starts in the
  environment the first one left), with requested delay 0 or any other, the second call
  blocks for at least \<open>min_delay\<close> seconds and the two updates of \<open>last_request_time\<close>
  are at least \<open>min_delay\<close> seconds apart.
\<close>

theorem min_spacing_enforced:
  "min_delay rate_limit = 3
   \<and> (0 < last_request_time s \<longrightarrow>
        clock w + (min_delay rate_limit - (clock w - last_request_time s))
          \<le> clock (snd (wait_with_progress d (s, w)))
      \<and> clock w + d \<le> clock (snd (wait_with_progress d (s, w)))
      \<and> last_request_time s + min_delay rate_limit
          \<le> last_request_time (fst (wait_with_progress d (s, w))))
   \<and> (0 < clock w \<longrightarrow>
        last_request_time (fst (wait_with_progress d1 (s, w)))
          = clock (snd (wait_with_progress d1 (s, w)))
      \<and> clock (snd (wait_with_progress d1 (s, w))) + min_delay rate_limit
          \<le> clock (snd (wait_with_progress d2 (wait_with_progress d1 (s, w))))
      \<and> last_request_time (fst (wait_with_progress d1 (s, w))) + min_delay rate_limit
          \<le> last_request_time (fst (wait_with_progress d2 (wait_with_progress d1 (s, w)))))"
proof (intro conjI impI)
  show "min_delay rate_limit = 3"
    by (simp add: rate_limit_def)
next
  assume a: "0 < last_request_time s"
  from wait_blocks [OF a, of w d]
  show "clock w + (min_delay rate_limit - (clock w - last_request_time s))
          \<le> clock (snd (wait_with_progress d (s, w)))"
    and "clock w + d \<le> clock (snd (wait_with_progress d (s, w)))"
    by simp_all
  from wait_blocks [OF a, of w d]
  show "last_request_time s + min_delay rate_limit
          \<le> last_request_time (fst (wait_with_progress d (s, w)))"
    unfolding last_request_time_wait by simp
next
  assume a: "0 < clock w"
  obtain s1 w1 where sw: "wait_with_progress d1 (s, w) = (s1, w1)"
    by (cases "wait_with_progress d1 (s, w)")
  have l: "last_request_time s1 = clock w1"
    using last_request_time_wait [of d1 s w] sw by simp
  have "clock w \<le> clock w1"
    using clock_wait [of w d1 s] sw by simp
  with a l have p: "0 < last_request_time s1"
    by simp
  show "last_request_time (fst (wait_with_progress d1 (s, w)))
          = clock (snd (wait_with_progress d1 (s, w)))"
    by (rule last_request_time_wait)
  from wait_blocks [OF p, of w1 d2] l
  show "clock (snd (wait_with_progress d1 (s, w))) + min_delay rate_limit
          \<le> clock (snd (wait_with_progress d2 (wait_with_progress d1 (s, w))))"
    unfolding sw by simp
  from wait_blocks [OF p, of w1 d2] l
  show "last_request_time (fst (wait_with_progress d1 (s, w))) + min_delay rate_limit
          \<le> last_request_time (fst (wait_with_progress d2 (wait_with_progress d1 (s, w))))"
    unfolding sw last_request_time_wait by simp
qed

theorem min_spacing_enforced_witness:
  "0 < clock world0
   \<and> last_request_time (fst (wait_with_progress 0 (fresh, world0))) = 1000
   \<and> last_request_time
        (fst (wait_with_progress 0 (wait_with_progress 0 (fresh, world0)))) = 1003
   \<and> last_request_time (fst (wait_with_progress 0 (fresh, world0))) + min_delay rate_limit
        \<le> last_request_time
             (fst (wait_with_progress 0 (wait_with_progress 0 (fresh, world0))))"
proof -
  have c: "0 < clock world0"
    by (simp add: world0_def)
  have 1: "wait_with_progress 0 (fresh, world0) = (fresh\<lparr>last_request_time := 1000\<rparr>, world0)"
    by (simp add: wait_with_progress_def fresh_def world0_def rate_limit_def Let_def)
  have 2: "wait_with_progress 0 (fresh\<lparr>last_request_time := 1000\<rparr>, world0)
             = (fresh\<lparr>last_request_time := 1003\<rparr>, world0\<lparr>clock := 1003\<rparr>)"
    by (simp add: wait_with_progress_def sleep_def fresh_def world0_def rate_limit_def Let_def)
  show ?thesis
    using c min_spacing_enforced [of fresh world0 0 0 0] by (simp add: 1 2)
qed

end
